theory Spec2Isabelle
  imports Complex_Main
begin

section \<open>JavaScript numbers\<close>

text \<open>
  A JavaScript \<^verbatim>\<open>number\<close> is an IEEE 754 double: \<open>NaN\<close>, one of the two infinities, or
  a finite value. \<open>Fin r\<close> is the finite double of value \<open>r\<close>. Negative zero is not
  distinguished from zero.
\<close>

datatype number = NaN | NInf | Fin real | PInf

text \<open>
  Rounding. \<open>round_even\<close> is the nearest integer, the even one of the two at a tie.
  \<open>exponent x\<close> is the exponent of the binade of \<open>x\<close>, at least that of the subnormal
  numbers. \<open>fl x\<close> is the double nearest to the real \<open>x\<close>: \<open>x\<close> rounded to a multiple of
  \<open>2 powi (exponent x - 52)\<close>, and an infinity when that reaches \<open>2 ^ 1024\<close>. It is the
  value of a numeric literal and the result of each arithmetic operation on the exact
  result.
\<close>

definition round_even :: "real \<Rightarrow> int" where
  "round_even y =
     (let n = \<lfloor>y\<rfloor>; f = y - of_int n
      in if f < 1 / 2 then n else if 1 / 2 < f then n + 1 else if even n then n else n + 1)"

definition exponent :: "real \<Rightarrow> int" where
  "exponent x = max \<lfloor>log 2 \<bar>x\<bar>\<rfloor> (- 1022)"

definition fl :: "real \<Rightarrow> number" where
  "fl x =
     (if x = 0 then Fin 0
      else let q = 2 powi (exponent x - 52);
               r = q * of_int (round_even (x / q))
           in if 2 ^ 1024 \<le> \<bar>r\<bar> then (if 0 < x then PInf else NInf) else Fin r)"

text \<open>
  The arithmetic of the language: an undefined operation (\<open>0/0\<close>,
  \<open>Infinity - Infinity\<close>, \<open>0 * Infinity\<close>) yields \<open>NaN\<close>, every operation on \<open>NaN\<close> yields
  \<open>NaN\<close>, and an operation on finite values yields the exact result rounded by \<open>fl\<close>.
\<close>

instantiation number :: "{plus, uminus, minus, times, inverse, ord}"
begin

fun plus_number :: "number \<Rightarrow> number \<Rightarrow> number" where
  "plus_number NaN y = NaN"
| "plus_number x NaN = NaN"
| "plus_number (Fin a) (Fin b) = fl (a + b)"
| "plus_number PInf NInf = NaN"
| "plus_number NInf PInf = NaN"
| "plus_number PInf y = PInf"
| "plus_number x PInf = PInf"
| "plus_number NInf y = NInf"
| "plus_number x NInf = NInf"

fun uminus_number :: "number \<Rightarrow> number" where
  "uminus_number NaN = NaN"
| "uminus_number NInf = PInf"
| "uminus_number (Fin a) = Fin (- a)"
| "uminus_number PInf = NInf"

definition minus_number :: "number \<Rightarrow> number \<Rightarrow> number" where
  "minus_number x y = x + (- y)"

fun times_number :: "number \<Rightarrow> number \<Rightarrow> number" where
  "times_number NaN y = NaN"
| "times_number x NaN = NaN"
| "times_number (Fin a) (Fin b) = fl (a * b)"
| "times_number (Fin a) PInf = (if a = 0 then NaN else if 0 < a then PInf else NInf)"
| "times_number (Fin a) NInf = (if a = 0 then NaN else if 0 < a then NInf else PInf)"
| "times_number PInf (Fin b) = (if b = 0 then NaN else if 0 < b then PInf else NInf)"
| "times_number NInf (Fin b) = (if b = 0 then NaN else if 0 < b then NInf else PInf)"
| "times_number PInf PInf = PInf"
| "times_number NInf NInf = PInf"
| "times_number PInf NInf = NInf"
| "times_number NInf PInf = NInf"

text \<open>Division by the (positive) zero gives an infinity of the dividend's sign, \<open>0/0\<close> is \<open>NaN\<close>.\<close>

fun divide_number :: "number \<Rightarrow> number \<Rightarrow> number" where
  "divide_number NaN y = NaN"
| "divide_number x NaN = NaN"
| "divide_number (Fin a) (Fin b) =
     (if b \<noteq> 0 then fl (a / b) else if a = 0 then NaN else if 0 < a then PInf else NInf)"
| "divide_number (Fin a) y = Fin 0"
| "divide_number PInf (Fin b) = (if 0 \<le> b then PInf else NInf)"
| "divide_number NInf (Fin b) = (if 0 \<le> b then NInf else PInf)"
| "divide_number x y = NaN"

fun inverse_number :: "number \<Rightarrow> number" where
  "inverse_number NaN = NaN"
| "inverse_number (Fin b) = (if b \<noteq> 0 then fl (1 / b) else PInf)"
| "inverse_number x = Fin 0"

text \<open>Every comparison with \<open>NaN\<close> is false.\<close>

fun less_number :: "number \<Rightarrow> number \<Rightarrow> bool" where
  "less_number NaN y = False"
| "less_number x NaN = False"
| "less_number (Fin a) (Fin b) = (a < b)"
| "less_number x NInf = False"
| "less_number PInf y = False"
| "less_number x y = True"

fun less_eq_number :: "number \<Rightarrow> number \<Rightarrow> bool" where
  "less_eq_number NaN y = False"
| "less_eq_number x NaN = False"
| "less_eq_number (Fin a) (Fin b) = (a \<le> b)"
| "less_eq_number NInf y = True"
| "less_eq_number x PInf = True"
| "less_eq_number x y = False"

instance ..

end

text \<open>\<open>isNaN\<close> and \<open>Number.isFinite\<close>.\<close>

fun isNaN :: "number \<Rightarrow> bool" where
  "isNaN NaN = True"
| "isNaN x = False"

fun isFinite :: "number \<Rightarrow> bool" where
  "isFinite (Fin a) = True"
| "isFinite x = False"

text \<open>
  The remainder operator \<^verbatim>\<open>a % b\<close>: the dividend minus the divisor times the quotient
  truncated towards zero, so the result has the dividend's sign. The operation is exact:
  the remainder of two doubles is a double.
\<close>

definition trunc :: "real \<Rightarrow> int" where
  "trunc r = (if 0 \<le> r then \<lfloor>r\<rfloor> else \<lceil>r\<rceil>)"

fun remainder :: "number \<Rightarrow> number \<Rightarrow> number" where
  "remainder (Fin a) (Fin b) = (if b = 0 then NaN else Fin (a - b * of_int (trunc (a / b))))"
| "remainder (Fin a) PInf = Fin a"
| "remainder (Fin a) NInf = Fin a"
| "remainder x y = NaN"

subsection \<open>The \<^verbatim>\<open>Math\<close> object\<close>

text \<open>
  \<^verbatim>\<open>Math.PI\<close> is the double nearest to \<open>pi\<close>. \<^verbatim>\<open>Math.abs\<close> and \<^verbatim>\<open>Math.floor\<close> are
  exact. For the trigonometric functions the language asks for an approximation of the
  mathematical value and leaves its accuracy to the implementation; here each returns the
  double nearest to the mathematical value.
\<close>

definition Math_PI :: number where
  "Math_PI = fl pi"

fun Math_abs :: "number \<Rightarrow> number" where
  "Math_abs NaN = NaN"
| "Math_abs (Fin a) = Fin \<bar>a\<bar>"
| "Math_abs x = PInf"

fun Math_floor :: "number \<Rightarrow> number" where
  "Math_floor (Fin a) = Fin (of_int \<lfloor>a\<rfloor>)"
| "Math_floor x = x"

fun Math_sin :: "number \<Rightarrow> number" where
  "Math_sin (Fin a) = fl (sin a)"
| "Math_sin x = NaN"

fun Math_cos :: "number \<Rightarrow> number" where
  "Math_cos (Fin a) = fl (cos a)"
| "Math_cos x = NaN"

fun Math_tan :: "number \<Rightarrow> number" where
  "Math_tan (Fin a) = fl (tan a)"
| "Math_tan x = NaN"

fun Math_asin :: "number \<Rightarrow> number" where
  "Math_asin (Fin a) = (if - 1 \<le> a \<and> a \<le> 1 then fl (arcsin a) else NaN)"
| "Math_asin x = NaN"

fun Math_acos :: "number \<Rightarrow> number" where
  "Math_acos (Fin a) = (if - 1 \<le> a \<and> a \<le> 1 then fl (arccos a) else NaN)"
| "Math_acos x = NaN"

fun Math_atan :: "number \<Rightarrow> number" where
  "Math_atan NaN = NaN"
| "Math_atan NInf = fl (- pi / 2)"
| "Math_atan (Fin a) = fl (arctan a)"
| "Math_atan PInf = fl (pi / 2)"

text \<open>The angle of the point \<open>(x, y)\<close>, in \<open>(-pi, pi]\<close>, and 0 at the origin.\<close>

definition atan2_real :: "real \<Rightarrow> real \<Rightarrow> real" where
  "atan2_real y x =
     (if 0 < x then arctan (y / x)
      else if x < 0 then (if 0 \<le> y then arctan (y / x) + pi else arctan (y / x) - pi)
      else if 0 < y then pi / 2
      else if y < 0 then - pi / 2
      else 0)"

fun Math_atan2 :: "number \<Rightarrow> number \<Rightarrow> number" where
  "Math_atan2 NaN x = NaN"
| "Math_atan2 y NaN = NaN"
| "Math_atan2 (Fin y) (Fin x) = fl (atan2_real y x)"
| "Math_atan2 (Fin y) PInf = Fin 0"
| "Math_atan2 (Fin y) NInf = fl (if 0 \<le> y then pi else - pi)"
| "Math_atan2 PInf (Fin x) = fl (pi / 2)"
| "Math_atan2 NInf (Fin x) = fl (- pi / 2)"
| "Math_atan2 PInf PInf = fl (pi / 4)"
| "Math_atan2 PInf NInf = fl (3 * pi / 4)"
| "Math_atan2 NInf PInf = fl (- pi / 4)"
| "Math_atan2 NInf NInf = fl (- 3 * pi / 4)"

section \<open>Trigonometry in degrees (\<^verbatim>\<open>dmath\<close>)\<close>

definition toRadians :: "number \<Rightarrow> number" where
  "toRadians degrees = degrees * (Math_PI / Fin 180)"

definition toDegrees :: "number \<Rightarrow> number" where
  "toDegrees radians = (radians * Fin 180) / Math_PI"

definition sin_deg :: "number \<Rightarrow> number" where
  "sin_deg degrees = Math_sin (toRadians degrees)"

definition cos_deg :: "number \<Rightarrow> number" where
  "cos_deg degrees = Math_cos (toRadians degrees)"

definition tan_deg :: "number \<Rightarrow> number" where
  "tan_deg degrees = Math_tan (toRadians degrees)"

definition arcsin_deg :: "number \<Rightarrow> number" where
  "arcsin_deg degrees = toDegrees (Math_asin degrees)"

definition arccos_deg :: "number \<Rightarrow> number" where
  "arccos_deg degrees = toDegrees (Math_acos degrees)"

definition arccot :: "number \<Rightarrow> number" where
  "arccot degrees = toDegrees (Math_atan (Fin 1 / degrees))"

definition arctan2 :: "number \<Rightarrow> number \<Rightarrow> number" where
  "arctan2 y x = toDegrees (Math_atan2 y x)"

text \<open>The function \<^verbatim>\<open>fix\<close> of the source is \<open>fix_num\<close>.\<close>

definition fix_num :: "number \<Rightarrow> number \<Rightarrow> number" where
  "fix_num a b = (let fixed = remainder a b in if fixed < Fin 0 then fixed + b else fixed)"

definition fixAngle :: "number \<Rightarrow> number" where
  "fixAngle angle = fix_num angle (Fin 360)"

definition fixHour :: "number \<Rightarrow> number" where
  "fixHour hour = fix_num hour (Fin 24)"

section \<open>Astronomy\<close>

text \<open>
  A \<^verbatim>\<open>Date\<close> object is either invalid (every getter returns \<open>NaN\<close>) or holds the
  local calendar components: the full year, the month counted from 0 and the day of
  the month.
\<close>

datatype Date = InvalidDate | CivilDate int int int

fun getFullYear :: "Date \<Rightarrow> number" where
  "getFullYear InvalidDate = NaN"
| "getFullYear (CivilDate y m d) = Fin (of_int y)"

fun getMonth :: "Date \<Rightarrow> number" where
  "getMonth InvalidDate = NaN"
| "getMonth (CivilDate y m d) = Fin (of_int m)"

fun getDate :: "Date \<Rightarrow> number" where
  "getDate InvalidDate = NaN"
| "getDate (CivilDate y m d) = Fin (of_int d)"

text \<open>\<^verbatim>\<open>[latitude, longitude, altitude?]\<close>\<close>

type_synonym Coordinates = "number \<times> number \<times> number option"

definition getJulianDay :: "Date \<Rightarrow> number" where
  "getJulianDay date =
     (let year = getFullYear date;
          month = getMonth date + Fin 1;
          day = getDate date;
          (year, month) = (if month < Fin 3 then (year - Fin 1, month + Fin 12) else (year, month))
      in Math_floor (fl 365.2425 * year + fl 30.6001 * month) + day + Fin 1721027.5)"

definition sunPosition :: "number \<Rightarrow> number \<times> number" where
  "sunPosition jd =
     (let D = jd - Fin 2451545;
          q = fixAngle (fl 280.46061837 + fl 0.98564736 * D);
          g = fixAngle (fl 357.528 + fl 0.98560028 * D);
          L = fixAngle (q + fl 1.915 * sin_deg g + fl 0.02 * sin_deg (Fin 2 * g));
          e = fl 23.439 - fl 0.00000036 * D;
          decl = arcsin_deg (sin_deg e * sin_deg L);
          eqt = q / Fin 15 - fixHour (arctan2 (cos_deg e * sin_deg L) (cos_deg L) / Fin 15)
      in (decl, eqt))"

definition midDay :: "number \<Rightarrow> number \<Rightarrow> number" where
  "midDay julianDate time =
     (let eqt = snd (sunPosition (julianDate + time))
      in fixHour (Fin 12 - eqt))"

definition sunAngleTime :: "number \<Rightarrow> number \<Rightarrow> number \<Rightarrow> number \<Rightarrow> bool \<Rightarrow> number" where
  "sunAngleTime julianDate latitude angle time ccw =
     (let (decl, eqt) = sunPosition (julianDate + time);
          t = (Fin 1 / Fin 15) *
              arccos_deg ((- sin_deg angle - sin_deg decl * sin_deg latitude)
                          / (cos_deg decl * cos_deg latitude))
      in fixHour (Fin 12 - eqt) + (if ccw then - t else t))"

definition EARTH_RADIUS :: number where
  "EARTH_RADIUS = fl 6371008.7714"

definition riseSetAngle :: "number \<Rightarrow> number" where
  "riseSetAngle elevation = fl 0.833 + arccos_deg (EARTH_RADIUS / (EARTH_RADIUS + elevation))"

section \<open>Calculation methods\<close>

datatype CalculationKind = Angle | Minute

text \<open>The field \<^verbatim>\<open>value\<close> of a \<^verbatim>\<open>CalculationType\<close> is \<open>val\<close>.\<close>

record CalculationType =
  type :: CalculationKind
  val :: number

datatype MidnightMethod = Standard | Jafari

datatype AsrJuristic = Standard | Hanafi

text \<open>The numeric value of the enumeration: \<open>Standard = 1\<close>, and \<open>Hanafi\<close> the next one.\<close>

fun AsrJuristic_value :: "AsrJuristic \<Rightarrow> number" where
  "AsrJuristic_value AsrJuristic.Standard = Fin 1"
| "AsrJuristic_value Hanafi = Fin 2"

text \<open>\<^verbatim>\<open>CalculationMethod\<close>: an optional field that is absent is \<open>None\<close>.\<close>

record CalculationMethod =
  imsak :: "CalculationType option"
  fajr :: number
  dhuhr :: "number option"
  asr :: "AsrJuristic option"
  maghrib :: "CalculationType option"
  isha :: CalculationType
  midnight :: "MidnightMethod option"

text \<open>\<^verbatim>\<open>Required<CalculationMethod>\<close>: every field is present.\<close>

record RequiredCalculationMethod =
  imsak :: CalculationType
  fajr :: number
  dhuhr :: number
  asr :: AsrJuristic
  maghrib :: CalculationType
  isha :: CalculationType
  midnight :: MidnightMethod

text \<open>
  A complete method is a method: where the source passes a
  \<^verbatim>\<open>Required<CalculationMethod>\<close> for a \<^verbatim>\<open>CalculationMethod\<close>, every field is present.
\<close>

definition asCalculationMethod :: "RequiredCalculationMethod \<Rightarrow> CalculationMethod" where
  "asCalculationMethod r =
     \<lparr>CalculationMethod.imsak = Some (RequiredCalculationMethod.imsak r),
      fajr = RequiredCalculationMethod.fajr r,
      dhuhr = Some (RequiredCalculationMethod.dhuhr r),
      asr = Some (RequiredCalculationMethod.asr r),
      maghrib = Some (RequiredCalculationMethod.maghrib r),
      isha = RequiredCalculationMethod.isha r,
      midnight = Some (RequiredCalculationMethod.midnight r)\<rparr>"

record PrayerTimes =
  imsak :: number
  fajr :: number
  sunrise :: number
  dhuhr :: number
  asr :: number
  sunset :: number
  maghrib :: number
  isha :: number
  midnight :: number

datatype HightLatMethods = NightMiddle | AngleBased | OneSeventh

text \<open>The operator \<^verbatim>\<open>??\<close>: the right operand when the left one is absent.\<close>

fun nullish :: "'a option \<Rightarrow> 'a \<Rightarrow> 'a" where
  "nullish None d = d"
| "nullish (Some v) d = v"

definition createCalculationMethod :: "CalculationMethod \<Rightarrow> RequiredCalculationMethod" where
  "createCalculationMethod method =
     \<lparr>RequiredCalculationMethod.imsak =
        nullish (CalculationMethod.imsak method) \<lparr>type = Minute, val = Fin 10\<rparr>,
      fajr = CalculationMethod.fajr method,
      dhuhr = nullish (CalculationMethod.dhuhr method) (Fin 0),
      asr = nullish (CalculationMethod.asr method) AsrJuristic.Standard,
      maghrib = nullish (CalculationMethod.maghrib method) \<lparr>type = Minute, val = Fin 0\<rparr>,
      isha = CalculationMethod.isha method,
      midnight = nullish (CalculationMethod.midnight method) MidnightMethod.Standard\<rparr>"

text \<open>
  Reading \<^verbatim>\<open>obj[key]\<close> on an object literal: the object's own property of that name
  when it has one; otherwise the lookup goes on in the literal's prototype,
  \<^verbatim>\<open>Object.prototype\<close>, and yields the member of that name there; \<^verbatim>\<open>undefined\<close>
  when neither has the name. \<open>Object_prototype\<close> lists the property names of
  \<^verbatim>\<open>Object.prototype\<close> that the language defines.
\<close>

datatype 'a property = Undefined | Own 'a | Inherited string

definition Object_prototype :: "string list" where
  "Object_prototype =
     [''constructor'', ''hasOwnProperty'', ''isPrototypeOf'', ''propertyIsEnumerable'',
      ''toLocaleString'', ''toString'', ''valueOf'', ''__proto__'',
      ''__defineGetter__'', ''__defineSetter__'', ''__lookupGetter__'', ''__lookupSetter__'']"

definition get_property :: "(string \<times> 'a) list \<Rightarrow> string \<Rightarrow> 'a property" where
  "get_property obj key =
     (case map_of obj key of
        Some v \<Rightarrow> Own v
      | None \<Rightarrow> if key \<in> set Object_prototype then Inherited key else Undefined)"

text \<open>The values of the enumeration \<^verbatim>\<open>CalculationMethods\<close>, the names of the presets.\<close>

definition CalculationMethods :: "string list" where
  "CalculationMethods =
     [''MWL'', ''ISNA'', ''Egypt'', ''Makkah'', ''Karachi'', ''Tehran'', ''Jafari'', ''MF'']"

text \<open>
  \<^verbatim>\<open>getCalculationMethod(method, isRamadan = false)\<close>: the second argument may be
  left out (\<open>None\<close>).
\<close>

definition getCalculationMethod :: "string \<Rightarrow> bool option \<Rightarrow> CalculationMethod property" where
  "getCalculationMethod method isRamadan_arg =
     (let isRamadan = nullish isRamadan_arg False
      in get_property
        [(''MWL'', \<lparr>CalculationMethod.imsak = None, fajr = Fin 18, dhuhr = None, asr = None,
            maghrib = None, isha = \<lparr>type = Angle, val = Fin 17\<rparr>, midnight = None\<rparr>),
         (''ISNA'', \<lparr>CalculationMethod.imsak = None, fajr = Fin 15, dhuhr = None, asr = None,
            maghrib = None, isha = \<lparr>type = Angle, val = Fin 15\<rparr>, midnight = None\<rparr>),
         (''Egypt'', \<lparr>CalculationMethod.imsak = None, fajr = Fin 19.5, dhuhr = None, asr = None,
            maghrib = None, isha = \<lparr>type = Angle, val = Fin 17.5\<rparr>, midnight = None\<rparr>),
         (''Makkah'', \<lparr>CalculationMethod.imsak = None, fajr = Fin 19.5, dhuhr = None, asr = None,
            maghrib = None,
            isha = \<lparr>type = Minute, val = (if isRamadan then Fin 120 else Fin 90)\<rparr>,
            midnight = None\<rparr>),
         (''Karachi'', \<lparr>CalculationMethod.imsak = None, fajr = Fin 18, dhuhr = None, asr = None,
            maghrib = None, isha = \<lparr>type = Angle, val = Fin 18\<rparr>, midnight = None\<rparr>),
         (''Tehran'', \<lparr>CalculationMethod.imsak = None, fajr = fl 17.7, dhuhr = None, asr = None,
            maghrib = Some \<lparr>type = Angle, val = Fin 4.5\<rparr>,
            isha = \<lparr>type = Angle, val = Fin 14\<rparr>, midnight = Some Jafari\<rparr>),
         (''Jafari'', \<lparr>CalculationMethod.imsak = None, fajr = Fin 16, dhuhr = None, asr = None,
            maghrib = Some \<lparr>type = Angle, val = Fin 4\<rparr>,
            isha = \<lparr>type = Angle, val = Fin 14\<rparr>, midnight = Some Jafari\<rparr>),
         (''MF'', \<lparr>CalculationMethod.imsak = None, fajr = Fin 12, dhuhr = None, asr = None,
            maghrib = None, isha = \<lparr>type = Angle, val = Fin 12\<rparr>, midnight = None\<rparr>)]
        method)"

section \<open>The prayer manager\<close>

definition timeDiff :: "number \<Rightarrow> number \<Rightarrow> number" where
  "timeDiff time1 time2 = fixHour (time2 - time1)"

definition asrTime :: "number \<Rightarrow> number \<Rightarrow> AsrJuristic \<Rightarrow> number \<Rightarrow> number" where
  "asrTime julianDay latitude factor time =
     (let decl = fst (sunPosition (julianDay + time));
          angle = - arccot (AsrJuristic_value factor + tan_deg (Math_abs (latitude - decl)))
      in sunAngleTime julianDay latitude angle time False)"

text \<open>The private field \<^verbatim>\<open>#method\<close> is \<open>hash_method\<close>.\<close>

record PrayerManager =
  hash_method :: RequiredCalculationMethod
  hightLatMethod :: "HightLatMethods option"

definition setCalculationMethod :: "PrayerManager \<Rightarrow> CalculationMethod \<Rightarrow> PrayerManager" where
  "setCalculationMethod this m = this\<lparr>hash_method := createCalculationMethod m\<rparr>"

definition new_PrayerManager :: "CalculationMethod \<Rightarrow> HightLatMethods option \<Rightarrow> PrayerManager" where
  "new_PrayerManager m h = \<lparr>hash_method = createCalculationMethod m, hightLatMethod = h\<rparr>"

text \<open>
  The table of \<open>nightPortion\<close> is read at \<^verbatim>\<open>this.hightLatMethod!\<close>; with no method set
  the entry is \<^verbatim>\<open>undefined\<close> and the product is \<open>NaN\<close>.
\<close>

definition nightPortion :: "PrayerManager \<Rightarrow> number \<Rightarrow> number \<Rightarrow> number" where
  "nightPortion this angle night =
     (case hightLatMethod this of
        None \<Rightarrow> NaN
      | Some NightMiddle \<Rightarrow> (Fin 1 / Fin 2) * night
      | Some AngleBased \<Rightarrow> ((Fin 1 / Fin 60) * angle) * night
      | Some OneSeventh \<Rightarrow> (Fin 1 / Fin 7) * night)"

definition adjustHighlatTime ::
    "PrayerManager \<Rightarrow> number \<Rightarrow> number \<Rightarrow> number \<Rightarrow> number \<Rightarrow> bool \<Rightarrow> number" where
  "adjustHighlatTime this time base angle night ccw =
     (let portion = nightPortion this angle night;
          diff = (if ccw then timeDiff time base else timeDiff base time)
      in if portion > diff then time
         else base + (if ccw then - portion else portion))"

definition getTimes :: "PrayerManager \<Rightarrow> Date \<Rightarrow> Coordinates \<Rightarrow> PrayerTimes" where
  "getTimes this date coordinates =
     (let (latitude, longitude, altitude_arg) = coordinates;
          altitude = nullish altitude_arg (Fin 0);
          julianDay = getJulianDay date - longitude / (Fin 15 * Fin 24);
          (method :: RequiredCalculationMethod) = hash_method this;
          adjust = longitude / Fin 15;
          imsak = sunAngleTime julianDay latitude (val (RequiredCalculationMethod.imsak method))
                    (Fin 5 / Fin 24) True - adjust;
          fajr = sunAngleTime julianDay latitude (RequiredCalculationMethod.fajr method)
                    (Fin 5 / Fin 24) True - adjust;
          sunrise = sunAngleTime julianDay latitude (riseSetAngle altitude)
                    (Fin 6 / Fin 24) True - adjust;
          dhuhr = midDay julianDay (Fin 12 / Fin 24) - adjust
                    + RequiredCalculationMethod.dhuhr method / Fin 60;
          asr = asrTime julianDay latitude (RequiredCalculationMethod.asr method)
                    (Fin 13 / Fin 24) - adjust;
          sunset = sunAngleTime julianDay latitude (riseSetAngle altitude)
                    (Fin 18 / Fin 24) False - adjust;
          maghrib = sunAngleTime julianDay latitude (val (RequiredCalculationMethod.maghrib method))
                    (Fin 18 / Fin 24) False - adjust;
          isha = sunAngleTime julianDay latitude (val (RequiredCalculationMethod.isha method))
                    (Fin 18 / Fin 24) False - adjust;
          (imsak, fajr, maghrib, isha) =
            (case hightLatMethod this of
               None \<Rightarrow> (imsak, fajr, maghrib, isha)
             | Some h \<Rightarrow>
                 (let nightTime = timeDiff sunset sunrise
                  in (adjustHighlatTime this imsak sunrise
                        (val (RequiredCalculationMethod.imsak method)) nightTime True,
                      adjustHighlatTime this fajr sunrise
                        (RequiredCalculationMethod.fajr method) nightTime True,
                      adjustHighlatTime this maghrib sunset
                        (val (RequiredCalculationMethod.maghrib method)) nightTime False,
                      adjustHighlatTime this isha sunset
                        (val (RequiredCalculationMethod.isha method)) nightTime False)));
          imsak = (if type (RequiredCalculationMethod.imsak method) = Minute
                   then fajr - val (RequiredCalculationMethod.imsak method) / Fin 60 else imsak);
          maghrib = (if type (RequiredCalculationMethod.maghrib method) = Minute
                   then sunset - val (RequiredCalculationMethod.maghrib method) / Fin 60 else maghrib);
          isha = (if type (RequiredCalculationMethod.isha method) = Minute
                   then maghrib - val (RequiredCalculationMethod.isha method) / Fin 60 else isha)
      in \<lparr>imsak = imsak,
          fajr = fajr,
          sunrise = sunrise,
          dhuhr = dhuhr,
          asr = asr,
          sunset = sunset,
          maghrib = maghrib,
          isha = isha,
          midnight =
            sunset + (if RequiredCalculationMethod.midnight method = MidnightMethod.Standard
                      then timeDiff sunset sunrise else timeDiff sunset fajr) / Fin 2\<rparr>)"

section \<open>Example inputs\<close>


text \<open>The presets Makkah (outside Ramadan) and Tehran.\<close>

definition Makkah :: CalculationMethod where
  "Makkah = \<lparr>CalculationMethod.imsak = None, fajr = Fin 19.5, dhuhr = None, asr = None,
           maghrib = None, isha = \<lparr>type = Minute, val = Fin 90\<rparr>, midnight = None\<rparr>"

definition Tehran :: CalculationMethod where
  "Tehran = \<lparr>CalculationMethod.imsak = None, fajr = fl 17.7, dhuhr = None, asr = None,
           maghrib = Some \<lparr>type = Angle, val = Fin 4.5\<rparr>,
           isha = \<lparr>type = Angle, val = Fin 14\<rparr>, midnight = Some Jafari\<rparr>"

section \<open>The solar position over the reals\<close>

text \<open>
  For a finite Julian date the quantities of \<open>sunPosition\<close> are real numbers. The
  functions below give them as such: the mean longitude \<open>q\<close>, the mean anomaly \<open>g\<close>,
  the ecliptic longitude \<open>L\<close>, the obliquity \<open>e\<close>, the declination and the right
  ascension, all in degrees, and the equation of time and the solar noon, in hours.
  Lemma \<open>sunPosition_Fin\<close> shows that \<open>sunPosition\<close> computes this declination and
  this equation of time.
\<close>

definition mean_longitude :: "real \<Rightarrow> real" where
  "mean_longitude j = (let x = 280.46061837 + 0.98564736 * (j - 2451545) in x - 360 * of_int \<lfloor>x / 360\<rfloor>)"

definition mean_anomaly :: "real \<Rightarrow> real" where
  "mean_anomaly j = (let x = 357.528 + 0.98560028 * (j - 2451545) in x - 360 * of_int \<lfloor>x / 360\<rfloor>)"

definition ecliptic_longitude :: "real \<Rightarrow> real" where
  "ecliptic_longitude j =
     (let x = mean_longitude j + 1.915 * sin (mean_anomaly j * (pi / 180))
              + 0.02 * sin (2 * mean_anomaly j * (pi / 180))
      in x - 360 * of_int \<lfloor>x / 360\<rfloor>)"

definition obliquity :: "real \<Rightarrow> real" where
  "obliquity j = 23.439 - 0.00000036 * (j - 2451545)"

definition declination :: "real \<Rightarrow> real" where
  "declination j =
     arcsin (sin (obliquity j * (pi / 180)) * sin (ecliptic_longitude j * (pi / 180))) * 180 / pi"

definition right_ascension :: "real \<Rightarrow> real" where
  "right_ascension j =
     atan2_real (cos (obliquity j * (pi / 180)) * sin (ecliptic_longitude j * (pi / 180)))
       (cos (ecliptic_longitude j * (pi / 180))) * 180 / pi"

definition equation_of_time :: "real \<Rightarrow> real" where
  "equation_of_time j =
     mean_longitude j / 15
       - (let x = right_ascension j / 15 in x - 24 * of_int \<lfloor>x / 24\<rfloor>)"

definition solar_noon :: "real \<Rightarrow> real" where
  "solar_noon j = (let x = 12 - equation_of_time j in x - 24 * of_int \<lfloor>x / 24\<rfloor>)"

section \<open>Rounding\<close>

lemma round_even_error: "\<bar>of_int (round_even y) - y\<bar> \<le> 1 / 2"
  unfolding round_even_def Let_def by (auto; linarith)

lemma round_even_of_int [simp]: "round_even (of_int n) = n"
  by (simp add: round_even_def)

lemma round_even_minus: "round_even (- y) = - round_even y"
proof (cases "y \<in> \<int>")
  case True
  then obtain k :: int where "y = of_int k" by (auto elim!: Ints_cases)
  then have "round_even y = k" "round_even (- y) = - k"
    using round_even_of_int[of "- k"] by simp_all
  then show ?thesis by simp
next
  case False
  define n where "n = \<lfloor>y\<rfloor>"
  define f where "f = y - of_int n"
  have "of_int n \<noteq> y" using False by (metis Ints_of_int)
  then have f: "0 < f" "f < 1"
    unfolding f_def n_def by linarith+
  have c: "\<lfloor>- y\<rfloor> = - n - 1"
    unfolding n_def using f unfolding f_def n_def by (simp add: floor_eq_iff)
  have g: "- y - of_int (- n - 1) = 1 - f"
    by (simp add: f_def)
  have r: "round_even y = (if f < 1 / 2 then n else if 1 / 2 < f then n + 1 else if even n then n else n + 1)"
    by (simp add: round_even_def Let_def n_def f_def)
  have r': "round_even (- y) = (if 1 - f < 1 / 2 then - n - 1 else if 1 / 2 < 1 - f then - n
               else if even (- n - 1) then - n - 1 else - n)"
    unfolding round_even_def Let_def c g by simp
  consider "f < 1 / 2" | "1 / 2 < f" | "f = 1 / 2" by linarith
  then show ?thesis
  proof cases
    case 1
    then show ?thesis unfolding r r' by simp
  next
    case 2
    then show ?thesis unfolding r r' by simp
  next
    case 3
    then show ?thesis unfolding r r' by simp
  qed
qed


lemma round_even_nonneg: "0 \<le> y \<Longrightarrow> 0 \<le> round_even y"
  unfolding round_even_def Let_def by auto

lemma exponent_bounds:
  assumes "x \<noteq> 0" "- 1022 \<le> \<lfloor>log 2 \<bar>x\<bar>\<rfloor>"
  shows "2 powi exponent x \<le> \<bar>x\<bar>" "\<bar>x\<bar> < 2 powi (exponent x + 1)"
proof -
  have e: "exponent x = \<lfloor>log 2 \<bar>x\<bar>\<rfloor>"
    using assms by (simp add: exponent_def)
  have p: "2 powr (of_int k) = (2::real) powi k" for k
    by (rule powr_real_of_int') auto
  have "2 powr (of_int (exponent x)) \<le> \<bar>x\<bar> \<and> \<bar>x\<bar> < 2 powr (of_int (exponent x + 1))"
    using floor_log_eq_powr_iff[of "\<bar>x\<bar>" 2 "exponent x"] assms(1) e by simp
  then show "2 powi exponent x \<le> \<bar>x\<bar>" "\<bar>x\<bar> < 2 powi (exponent x + 1)"
    unfolding p by simp_all
qed

lemma exponent_le:
  assumes "\<bar>x\<bar> \<le> 2 powi k" "- 1022 \<le> k" "x \<noteq> 0"
  shows "exponent x \<le> k"
proof -
  have "log 2 \<bar>x\<bar> \<le> log 2 (2 powi k)"
    using assms by (intro log_mono) auto
  also have "\<dots> = of_int k"
    using powr_real_of_int'[of 2 k, symmetric] by simp
  finally have "\<lfloor>log 2 \<bar>x\<bar>\<rfloor> \<le> k"
    by (simp add: floor_le_iff)
  then show ?thesis using assms(2) by (simp add: exponent_def)
qed


lemma exponent_less:
  assumes "\<bar>x\<bar> < 2 powi k" "- 1021 \<le> k" "x \<noteq> 0"
  shows "exponent x \<le> k - 1"
proof -
  have "log 2 \<bar>x\<bar> < log 2 (2 powi k)"
    using assms by (intro log_less) auto
  also have "\<dots> = of_int k"
    using powr_real_of_int'[of 2 k, symmetric] by simp
  finally have "\<lfloor>log 2 \<bar>x\<bar>\<rfloor> < k"
    by (simp add: floor_less_iff)
  then show ?thesis using assms(2) by (simp add: exponent_def)
qed


lemma exponent_minus [simp]: "exponent (- x) = exponent x"
  by (simp add: exponent_def)

lemma fl_0 [simp]: "fl 0 = Fin 0"
  by (simp add: fl_def)

lemma fl_unfold:
  assumes "x \<noteq> 0"
  shows "fl x = (if (2::real) ^ 1024 \<le> \<bar>2 powi (exponent x - 52) * of_int (round_even (x / 2 powi (exponent x - 52)))\<bar>
                 then (if 0 < x then PInf else NInf)
                 else Fin (2 powi (exponent x - 52) * of_int (round_even (x / 2 powi (exponent x - 52)))))"
  using assms by (simp add: fl_def Let_def)

lemma fl_minus: "fl (- x) = - fl x"
proof (cases "x = 0")
  case True
  then show ?thesis by simp
next
  case False
  define q where "q = (2::real) powi (exponent x - 52)"
  define r where "r = q * of_int (round_even (x / q))"
  have m: "q * of_int (round_even (- x / q)) = - r"
    using round_even_minus[of "x / q"] by (simp add: r_def)
  have 1: "fl x = (if (2::real) ^ 1024 \<le> \<bar>r\<bar> then (if 0 < x then PInf else NInf) else Fin r)"
    using fl_unfold[OF False] by (simp add: q_def r_def)
  have "- x \<noteq> 0" using False by simp
  from fl_unfold[OF this]
  have 2: "fl (- x) = (if (2::real) ^ 1024 \<le> \<bar>- r\<bar> then (if 0 < - x then PInf else NInf) else Fin (- r))"
    unfolding exponent_minus q_def[symmetric] m .
  show ?thesis
    unfolding 1 2 using False by auto
qed

lemma half_power_int: "(2::real) powi (e - 52) * (1 / 2) = 2 powi (e - 53)"
proof -
  have "(2::real) powi (e - 52) = 2 powi ((e - 53) + 1)" by simp
  also have "\<dots> = 2 powi (e - 53) * 2"
    by (subst power_int_add) auto
  finally show ?thesis by simp
qed

text \<open>Within the range of the doubles the result is finite and the error of rounding is at most half a unit in the last place.\<close>

lemma fl_error:
  assumes "\<bar>x\<bar> \<le> 2 powi k" "- 1022 \<le> k" "k \<le> 1023"
  shows "\<exists>y. fl x = Fin y \<and> \<bar>y - x\<bar> \<le> 2 powi (k - 53)"
proof (cases "x = 0")
  case True
  then show ?thesis by simp
next
  case False
  define q where "q = (2::real) powi (exponent x - 52)"
  define r where "r = q * of_int (round_even (x / q))"
  have q: "0 < q" by (simp add: q_def)
  have e: "exponent x \<le> k" using exponent_le[OF assms(1,2) False] .
  have "r - x = q * (of_int (round_even (x / q)) - x / q)"
    using q by (simp add: r_def algebra_simps)
  then have "\<bar>r - x\<bar> = q * \<bar>of_int (round_even (x / q)) - x / q\<bar>"
    using q by (simp add: abs_mult)
  also have "\<dots> \<le> q * (1 / 2)"
    using round_even_error[of "x / q"] q by (intro mult_left_mono) auto
  also have "\<dots> = 2 powi (exponent x - 53)"
    unfolding q_def by (rule half_power_int)
  also have "\<dots> \<le> 2 powi (k - 53)"
    using e by (intro power_int_increasing) auto
  finally have err: "\<bar>r - x\<bar> \<le> 2 powi (k - 53)" .
  have "(2::real) powi k \<le> 2 powi 1023" "(2::real) powi (k - 53) \<le> 2 powi 970"
    using assms(3) by (intro power_int_increasing; simp)+
  then have "\<bar>r\<bar> \<le> 2 powi 1023 + 2 powi 970"
    using err assms(1) by linarith
  also have "\<dots> < (2::real) ^ 1024" by simp
  finally have "\<not> 2 ^ 1024 \<le> \<bar>r\<bar>" by simp
  then have "fl x = Fin r"
    using fl_unfold[OF False] by (simp add: q_def r_def)
  then show ?thesis using err by blast
qed

text \<open>A value \<open>m * 2 powi k\<close> with \<open>m\<close> of at most 53 bits, in the range of the exponents, is a double.\<close>

lemma fl_exact:
  assumes "\<bar>m\<bar> < 2 ^ 53" "- 1074 \<le> k" "k \<le> 971"
  shows "fl (of_int m * 2 powi k) = Fin (of_int m * 2 powi k)"
proof (cases "m = 0")
  case True
  then show ?thesis by simp
next
  case False
  define x where "x = real_of_int m * 2 powi k"
  have x0: "x \<noteq> 0" using False by (simp add: x_def)
  have "\<bar>real_of_int m\<bar> < 2 ^ 53"
    using assms(1) by (metis of_int_abs of_int_less_numeral_power_cancel_iff)
  then have "\<bar>x\<bar> < 2 ^ 53 * 2 powi k"
    unfolding x_def abs_mult by (simp add: power_int_abs)
  also have "\<dots> = 2 powi (k + 53)"
    by (subst power_int_add) auto
  finally have lt: "\<bar>x\<bar> < 2 powi (k + 53)" .
  then have e: "exponent x \<le> k + 52"
    using exponent_less[OF lt _ x0] assms(2) by simp
  define q where "q = (2::real) powi (exponent x - 52)"
  define j where "j = nat (k - (exponent x - 52))"
  have q: "0 < q" by (simp add: q_def)
  have "(2::real) powi k = 2 powi ((exponent x - 52) + int j)"
    using e by (simp add: j_def)
  also have "\<dots> = q * 2 ^ j"
    unfolding q_def by (subst power_int_add) auto
  finally have k: "(2::real) powi k = q * 2 ^ j" .
  have "x / q = of_int (m * 2 ^ j)"
    using q by (simp add: x_def k)
  then have "round_even (x / q) = m * 2 ^ j"
    by (simp only: round_even_of_int)
  then have r: "q * of_int (round_even (x / q)) = x"
    by (simp add: x_def k)
  have "(2::real) powi (k + 53) \<le> 2 powi 1024"
    using assms(3) by (intro power_int_increasing) auto
  then have "\<not> 2 ^ 1024 \<le> \<bar>x\<bar>" using lt by simp
  then have "fl x = Fin x"
    using fl_unfold[OF x0] unfolding q_def[symmetric] r by simp
  then show ?thesis unfolding x_def .
qed

lemma fl_of_int: "\<bar>n\<bar> < 2 ^ 53 \<Longrightarrow> fl (of_int n) = Fin (of_int n)"
  using fl_exact[of n 0] by simp

lemma fl_dyadic: "\<bar>m\<bar> < 2 ^ 53 \<Longrightarrow> j \<le> 1074 \<Longrightarrow> fl (of_int m / 2 ^ j) = Fin (of_int m / 2 ^ j)"
  using fl_exact[of m "- int j"] by (simp add: power_int_minus field_simps)

text \<open>Rounding keeps the sign and does not pass a double.\<close>

lemma fl_nonneg:
  assumes "0 \<le> x"
  shows "fl x = PInf \<or> (\<exists>y. fl x = Fin y \<and> 0 \<le> y)"
proof (cases "x = 0")
  case True
  then show ?thesis by simp
next
  case False
  have "0 \<le> x / 2 powi (exponent x - 52)" using assms by simp
  then have "0 \<le> round_even (x / 2 powi (exponent x - 52))" by (rule round_even_nonneg)
  then have "0 \<le> 2 powi (exponent x - 52) * real_of_int (round_even (x / 2 powi (exponent x - 52)))"
    by simp
  then show ?thesis
    using fl_unfold[OF False] assms False by auto
qed


lemma fl_numeral [simp]: "numeral n < (2::int) ^ 53 \<Longrightarrow> fl (numeral n) = Fin (numeral n)"
  using fl_of_int[of "numeral n"] by simp

lemma fl_neg_numeral [simp]: "numeral n < (2::int) ^ 53 \<Longrightarrow> fl (- numeral n) = Fin (- numeral n)"
  using fl_of_int[of "- numeral n"] by simp

lemma fl_1 [simp]: "fl 1 = Fin 1"
  using fl_of_int[of 1] by simp

lemma fl_half [simp]: "fl (1 / 2) = Fin (1 / 2)"
  using fl_dyadic[of 1 1] by simp



section \<open>Undefined values in the arithmetic\<close>

lemma plus_NaN_right [simp]: "x + NaN = NaN"
  by (cases x) simp_all

lemma times_NaN_right [simp]: "x * NaN = NaN"
  by (cases x) simp_all

lemma divide_NaN_right [simp]: "x / NaN = NaN"
  by (cases x) simp_all

lemma minus_NaN_right [simp]: "x - NaN = NaN"
  by (simp add: minus_number_def)

lemma minus_NaN_left [simp]: "NaN - x = NaN"
  by (simp add: minus_number_def)

lemma minus_Fin [simp]: "Fin a - Fin b = fl (a - b)"
  by (simp add: minus_number_def)

lemma less_NaN_right [simp]: "\<not> x < NaN"
  by (cases x) simp_all

lemma less_eq_NaN_right [simp]: "\<not> x \<le> NaN"
  by (cases x) simp_all

lemma less_not_le: "x < Fin (- 1) \<Longrightarrow> \<not> (Fin (- 1) \<le> x \<and> x \<le> Fin 1)"
  by (cases x) simp_all

lemma isFinite_iff: "isFinite x \<longleftrightarrow> (\<exists>a. x = Fin a)"
  by (cases x) simp_all

lemma divide_zero_cases: "x / Fin 0 = NaN \<or> x / Fin 0 = PInf \<or> x / Fin 0 = NInf"
  by (cases x) simp_all


section \<open>Range normalisation\<close>












section \<open>Calculation methods: presets and defaults\<close>

text \<open>
  C8. \<open>getCalculationMethod('Makkah')\<close> has \<open>isha = {minute, 90}\<close>,
  \<open>getCalculationMethod('Makkah', true)\<close> has \<open>isha = {minute, 120}\<close>, every other
  field of the two results is the same, and for every name other than Makkah the result
  does not depend on the flag.
\<close>

theorem getCalculationMethod_Makkah:
  "getCalculationMethod ''Makkah'' None =
     Own \<lparr>CalculationMethod.imsak = None, fajr = Fin 19.5, dhuhr = None, asr = None,
          maghrib = None, isha = \<lparr>type = Minute, val = Fin 90\<rparr>, midnight = None\<rparr>
   \<and> getCalculationMethod ''Makkah'' (Some True) =
     Own \<lparr>CalculationMethod.imsak = None, fajr = Fin 19.5, dhuhr = None, asr = None,
          maghrib = None, isha = \<lparr>type = Minute, val = Fin 120\<rparr>, midnight = None\<rparr>
   \<and> (\<forall>name r r'. name \<noteq> ''Makkah'' \<longrightarrow>
          getCalculationMethod name r = getCalculationMethod name r')"
  by (simp add: getCalculationMethod_def get_property_def)

theorem getCalculationMethod_Makkah_witness:
  "''MWL'' \<noteq> ''Makkah''
   \<and> getCalculationMethod ''MWL'' (Some True) = getCalculationMethod ''MWL'' None"
  using getCalculationMethod_Makkah by simp

text \<open>
  C9, as stated, fails: a name that is no preset but names a member of
  \<^verbatim>\<open>Object.prototype\<close> is found in the prototype of the table, and the result is that
  member, not \<^verbatim>\<open>undefined\<close>.
\<close>

theorem getCalculationMethod_unknown_counterexample:
  "''toString'' \<notin> set CalculationMethods
   \<and> getCalculationMethod ''toString'' None = Inherited ''toString''"
  by (simp add: getCalculationMethod_def get_property_def Object_prototype_def
        CalculationMethods_def)

text \<open>
  C9, amended. For a name that is neither a preset nor the name of a member of
  \<^verbatim>\<open>Object.prototype\<close> the result is \<^verbatim>\<open>undefined\<close>; for each of the eight
  presets it is that preset's partial method.
\<close>

theorem getCalculationMethod_lookup:
  "(name \<notin> set CalculationMethods \<and> name \<notin> set Object_prototype
      \<longrightarrow> getCalculationMethod name r = Undefined)
   \<and> getCalculationMethod ''MWL'' r =
       Own \<lparr>CalculationMethod.imsak = None, fajr = Fin 18, dhuhr = None, asr = None,
          maghrib = None, isha = \<lparr>type = Angle, val = Fin 17\<rparr>, midnight = None\<rparr>
   \<and> getCalculationMethod ''ISNA'' r =
       Own \<lparr>CalculationMethod.imsak = None, fajr = Fin 15, dhuhr = None, asr = None,
          maghrib = None, isha = \<lparr>type = Angle, val = Fin 15\<rparr>, midnight = None\<rparr>
   \<and> getCalculationMethod ''Egypt'' r =
       Own \<lparr>CalculationMethod.imsak = None, fajr = Fin 19.5, dhuhr = None, asr = None,
          maghrib = None, isha = \<lparr>type = Angle, val = Fin 17.5\<rparr>, midnight = None\<rparr>
   \<and> getCalculationMethod ''Makkah'' r =
       Own \<lparr>CalculationMethod.imsak = None, fajr = Fin 19.5, dhuhr = None, asr = None,
          maghrib = None,
          isha = \<lparr>type = Minute, val = (if r = Some True then Fin 120 else Fin 90)\<rparr>,
          midnight = None\<rparr>
   \<and> getCalculationMethod ''Karachi'' r =
       Own \<lparr>CalculationMethod.imsak = None, fajr = Fin 18, dhuhr = None, asr = None,
          maghrib = None, isha = \<lparr>type = Angle, val = Fin 18\<rparr>, midnight = None\<rparr>
   \<and> getCalculationMethod ''Tehran'' r =
       Own \<lparr>CalculationMethod.imsak = None, fajr = fl 17.7, dhuhr = None, asr = None,
          maghrib = Some \<lparr>type = Angle, val = Fin 4.5\<rparr>,
          isha = \<lparr>type = Angle, val = Fin 14\<rparr>, midnight = Some Jafari\<rparr>
   \<and> getCalculationMethod ''Jafari'' r =
       Own \<lparr>CalculationMethod.imsak = None, fajr = Fin 16, dhuhr = None, asr = None,
          maghrib = Some \<lparr>type = Angle, val = Fin 4\<rparr>,
          isha = \<lparr>type = Angle, val = Fin 14\<rparr>, midnight = Some Jafari\<rparr>
   \<and> getCalculationMethod ''MF'' r =
       Own \<lparr>CalculationMethod.imsak = None, fajr = Fin 12, dhuhr = None, asr = None,
          maghrib = None, isha = \<lparr>type = Angle, val = Fin 12\<rparr>, midnight = None\<rparr>"
  by (cases r) (auto simp add: getCalculationMethod_def get_property_def CalculationMethods_def)

theorem getCalculationMethod_lookup_witness:
  "''NotAMethod'' \<notin> set CalculationMethods \<and> ''NotAMethod'' \<notin> set Object_prototype
   \<and> getCalculationMethod ''NotAMethod'' None = Undefined"
  using getCalculationMethod_lookup[where name = "''NotAMethod''" and r = None]
  by (simp add: CalculationMethods_def Object_prototype_def)

text \<open>
  C10. \<open>createCalculationMethod\<close> is idempotent: completing a completed method
  changes no field.
\<close>

theorem createCalculationMethod_idempotent:
  "createCalculationMethod (asCalculationMethod (createCalculationMethod m))
     = createCalculationMethod m"
  by (simp add: createCalculationMethod_def asCalculationMethod_def)

section \<open>The high-latitude adjustment\<close>





section \<open>The prayer times\<close>

text \<open>
  C5. A time of minute type is set after the high-latitude adjustment, from the values
  that are returned: \<open>imsak = fajr - minutes/60\<close>, \<open>maghrib = sunset - minutes/60\<close>,
  \<open>isha = maghrib - minutes/60\<close>. The \<open>fajr\<close> that \<open>imsak\<close> starts from is the adjusted one
  when a high-latitude method is set, and the \<open>maghrib\<close> that \<open>isha\<close> starts from is the
  minute-derived one when \<open>maghrib\<close> is of minute type and the (adjusted) angle-derived
  one otherwise.
\<close>

theorem getTimes_minute_overrides:
  "(let r = getTimes this date (latitude, longitude, altitude);
        m = hash_method this;
        julianDay = getJulianDay date - longitude / (Fin 15 * Fin 24);
        adjust = longitude / Fin 15;
        nightTime = timeDiff (sunset r) (sunrise r)
    in (type (RequiredCalculationMethod.imsak m) = Minute \<longrightarrow>
          imsak r = fajr r - val (RequiredCalculationMethod.imsak m) / Fin 60)
     \<and> (type (RequiredCalculationMethod.maghrib m) = Minute \<longrightarrow>
          maghrib r = sunset r - val (RequiredCalculationMethod.maghrib m) / Fin 60)
     \<and> (type (RequiredCalculationMethod.isha m) = Minute \<longrightarrow>
          isha r = maghrib r - val (RequiredCalculationMethod.isha m) / Fin 60)
     \<and> fajr r =
         (case hightLatMethod this of
            None \<Rightarrow> sunAngleTime julianDay latitude (RequiredCalculationMethod.fajr m)
                      (Fin 5 / Fin 24) True - adjust
          | Some h \<Rightarrow> adjustHighlatTime this
                (sunAngleTime julianDay latitude (RequiredCalculationMethod.fajr m)
                      (Fin 5 / Fin 24) True - adjust)
                (sunrise r) (RequiredCalculationMethod.fajr m) nightTime True)
     \<and> (type (RequiredCalculationMethod.maghrib m) = Angle \<longrightarrow>
          maghrib r =
           (case hightLatMethod this of
              None \<Rightarrow> sunAngleTime julianDay latitude (val (RequiredCalculationMethod.maghrib m))
                        (Fin 18 / Fin 24) False - adjust
            | Some h \<Rightarrow> adjustHighlatTime this
                (sunAngleTime julianDay latitude (val (RequiredCalculationMethod.maghrib m))
                        (Fin 18 / Fin 24) False - adjust)
                (sunset r) (val (RequiredCalculationMethod.maghrib m)) nightTime False)))"
  unfolding Let_def getTimes_def
  by (simp split: option.splits)

theorem getTimes_minute_overrides_witness:
  "imsak (getTimes (new_PrayerManager Makkah None) (CivilDate 2021 3 12) (Fin 45, Fin 0, None))
     = fajr (getTimes (new_PrayerManager Makkah None) (CivilDate 2021 3 12) (Fin 45, Fin 0, None))
         - Fin 10 / Fin 60
   \<and> maghrib (getTimes (new_PrayerManager Makkah None) (CivilDate 2021 3 12) (Fin 45, Fin 0, None))
     = sunset (getTimes (new_PrayerManager Makkah None) (CivilDate 2021 3 12) (Fin 45, Fin 0, None))
         - Fin 0 / Fin 60
   \<and> isha (getTimes (new_PrayerManager Makkah None) (CivilDate 2021 3 12) (Fin 45, Fin 0, None))
     = maghrib (getTimes (new_PrayerManager Makkah None) (CivilDate 2021 3 12) (Fin 45, Fin 0, None))
         - Fin 90 / Fin 60
   \<and> maghrib (getTimes (new_PrayerManager Tehran None) (CivilDate 2021 3 12) (Fin 45, Fin 0, None))
     = sunAngleTime (getJulianDay (CivilDate 2021 3 12) - Fin 0 / (Fin 15 * Fin 24)) (Fin 45)
         (Fin 4.5) (Fin 18 / Fin 24) False - Fin 0 / Fin 15"
  using getTimes_minute_overrides[where this = "new_PrayerManager Makkah None"
          and date = "CivilDate 2021 3 12" and latitude = "Fin 45" and longitude = "Fin 0"
          and altitude = None]
        getTimes_minute_overrides[where this = "new_PrayerManager Tehran None"
          and date = "CivilDate 2021 3 12" and latitude = "Fin 45" and longitude = "Fin 0"
          and altitude = None]
  by (simp add: Let_def new_PrayerManager_def createCalculationMethod_def Makkah_def Tehran_def)

text \<open>
  C6. Changing only \<open>isha\<close> in the method changes no returned field but \<open>isha\<close>; changing
  only \<open>maghrib\<close> changes none but \<open>maghrib\<close> and \<open>isha\<close>; changing only \<open>imsak\<close> changes
  none but \<open>imsak\<close>. In each case \<open>sunrise\<close>, \<open>dhuhr\<close>, \<open>asr\<close> and \<open>sunset\<close> are the same
  in the two calls.
\<close>

theorem getTimes_frame:
  "getTimes (new_PrayerManager (m\<lparr>CalculationMethod.isha := x\<rparr>) h) date coordinates
     = (getTimes (new_PrayerManager m h) date coordinates)
         \<lparr>isha := isha (getTimes (new_PrayerManager (m\<lparr>CalculationMethod.isha := x\<rparr>) h)
                          date coordinates)\<rparr>
   \<and> getTimes (new_PrayerManager (m\<lparr>CalculationMethod.maghrib := y\<rparr>) h) date coordinates
     = (getTimes (new_PrayerManager m h) date coordinates)
         \<lparr>maghrib := maghrib (getTimes (new_PrayerManager (m\<lparr>CalculationMethod.maghrib := y\<rparr>) h)
                                date coordinates),
          isha := isha (getTimes (new_PrayerManager (m\<lparr>CalculationMethod.maghrib := y\<rparr>) h)
                          date coordinates)\<rparr>
   \<and> getTimes (new_PrayerManager (m\<lparr>CalculationMethod.imsak := z\<rparr>) h) date coordinates
     = (getTimes (new_PrayerManager m h) date coordinates)
         \<lparr>imsak := imsak (getTimes (new_PrayerManager (m\<lparr>CalculationMethod.imsak := z\<rparr>) h)
                            date coordinates)\<rparr>"
  by (cases coordinates)
     (simp add: getTimes_def new_PrayerManager_def createCalculationMethod_def Let_def
        adjustHighlatTime_def nightPortion_def split: option.splits)

end
